theory Spec2Isabelle
  imports Complex_Main "HOL-Library.AList"
begin

section \<open>Values exchanged with the remote services\<close>

text \<open>
  Both pipeline scripts talk to a remote HTTP service through \<^verbatim>\<open>requests.post\<close> and decode
  the answer with \<^verbatim>\<open>response.json()\<close>. A decoded body is a JSON value; a Python
  \<^verbatim>\<open>dict\<close> is kept as an association list, so that the order of its keys stays visible.
  JSON numbers are reals (the non-finite floats that Python's decoder also accepts are
  left out).
\<close>

datatype json =
    JNull
  | JBool bool
  | JNum real
  | JStr string
  | JArr "json list"
  | JObj "(string \<times> json) list"

text \<open>Python's truth value of a decoded JSON value (\<^verbatim>\<open>if x:\<close>).\<close>

fun truthy :: "json \<Rightarrow> bool" where
  "truthy JNull = False"
| "truthy (JBool b) = b"
| "truthy (JNum r) = (r \<noteq> 0)"
| "truthy (JStr s) = (s \<noteq> [])"
| "truthy (JArr xs) = (xs \<noteq> [])"
| "truthy (JObj kvs) = (kvs \<noteq> [])"

text \<open>
  The exceptions the two scripts can meet. \<^verbatim>\<open>RequestException\<close> stands for every
  transport failure of \<^verbatim>\<open>requests.post\<close> (connection error, timeout),
  \<^verbatim>\<open>HTTPError\<close> is what \<^verbatim>\<open>raise_for_status\<close> raises on a 4xx or 5xx status, and
  \<^verbatim>\<open>JSONDecodeError\<close> what \<^verbatim>\<open>response.json()\<close> and \<^verbatim>\<open>json.load\<close> raise on a body or
  file that is not JSON.
\<close>

datatype exn =
    RequestException
  | HTTPError nat
  | JSONDecodeError
  | AttributeError
  | KeyError string
  | TypeError
  | IndexError

text \<open>
  What one \<^verbatim>\<open>requests.post\<close> call meets: no response at all, or a response with a
  status code and a body that is JSON (\<open>Some\<close>) or not (\<open>None\<close>).
\<close>

datatype http =
    Transport_error
  | Http_response nat "json option"

text \<open>
  The first three statements of both \<^verbatim>\<open>try\<close> blocks:
  \<^verbatim>\<open>response = requests.post(...); response.raise_for_status(); result = response.json()\<close>.
\<close>

fun post_json :: "http \<Rightarrow> exn + json" where
  "post_json Transport_error = Inl RequestException"
| "post_json (Http_response status body) =
     (if 400 \<le> status \<and> status < 600 then Inl (HTTPError status)
      else case body of None \<Rightarrow> Inl JSONDecodeError | Some result \<Rightarrow> Inr result)"

text \<open>\<^verbatim>\<open>result.get(key)\<close>: only a dict has \<^verbatim>\<open>get\<close>; a missing key gives \<^verbatim>\<open>None\<close>.\<close>

fun py_get :: "json \<Rightarrow> string \<Rightarrow> exn + json" where
  "py_get (JObj kvs) k = Inr (case map_of kvs k of None \<Rightarrow> JNull | Some v \<Rightarrow> v)"
| "py_get _ k = Inl AttributeError"


section \<open>The batch uploader (tools/migration/03\_insert\_vectorize.py)\<close>

definition MAX_RETRIES :: int where
  "MAX_RETRIES = 3"

definition RETRY_DELAY :: real where
  "RETRY_DELAY = 5"

text \<open>One element of a batch: \<^verbatim>\<open>{"id": ..., "values": ..., "metadata": ...}\<close>.\<close>

record vec =
  vec_id :: string
  vec_values :: json
  vec_metadata :: json

text \<open>The console lines of \<^verbatim>\<open>insert_batch\<close>, one constructor for each \<^verbatim>\<open>print\<close>.\<close>

datatype ins_msg =
    Msg_inserted nat
  | Msg_success_false json
  | Msg_insertion_failed int exn
  | Msg_retrying

text \<open>
  What a script does to the outside world, in the order it does it: a request sent with
  \<^verbatim>\<open>requests.post\<close> (with its payload), a \<^verbatim>\<open>time.sleep\<close> (with its seconds) and a
  \<^verbatim>\<open>print\<close>.
\<close>

datatype ('r, 'm) event =
    Post 'r
  | Sleep real
  | Print 'm

text \<open>
  The fields of \<^verbatim>\<open>VectorizeInserter\<close> (\<open>inserted_count\<close>, \<open>failed_ids\<close>) together
  with the world the object acts on: the number of requests sent so far and the events so
  far. The remote index is a function from the number of earlier requests and the batch
  sent to what that request meets.
\<close>

record inserter =
  inserted_count :: nat
  failed_ids :: "string list"
  posts :: nat
  events :: "(vec list, ins_msg) event list"

type_synonym index_service = "nat \<Rightarrow> vec list \<Rightarrow> http"

text \<open>
  The body of the \<^verbatim>\<open>try\<close> block up to the test \<^verbatim>\<open>if result.get("success")\<close>: an
  exception, or the decoded body together with the truth value of its \<^verbatim>\<open>success\<close> entry.
\<close>

definition attempt :: "http \<Rightarrow> exn + (json \<times> bool)" where
  "attempt h =
     (case post_json h of
        Inl e \<Rightarrow> Inl e
      | Inr result \<Rightarrow>
          (case py_get result ''success'' of
             Inl e \<Rightarrow> Inl e
           | Inr ok \<Rightarrow> Inr (result, truthy ok)))"

function insert_batch ::
  "index_service \<Rightarrow> vec list \<Rightarrow> int \<Rightarrow> inserter \<Rightarrow> bool \<times> inserter" where
  "insert_batch remote vectors retry_count s =
     (let s1 = s\<lparr>posts := posts s + 1, events := events s @ [Post vectors]\<rparr> in
      case attempt (remote (posts s) vectors) of
        Inr (result, True) \<Rightarrow>
          (True, s1\<lparr>inserted_count := inserted_count s1 + length vectors,
                     events := events s1 @ [Print (Msg_inserted (length vectors))]\<rparr>)
      | Inr (result, False) \<Rightarrow>
          (False, s1\<lparr>events := events s1 @ [Print (Msg_success_false result)]\<rparr>)
      | Inl e \<Rightarrow>
          (let s2 = s1\<lparr>events := events s1 @ [Print (Msg_insertion_failed (retry_count + 1) e)]\<rparr> in
           if retry_count < MAX_RETRIES then
             insert_batch remote vectors (retry_count + 1)
               (s2\<lparr>events := events s2 @ [Print Msg_retrying, Sleep RETRY_DELAY]\<rparr>)
           else
             (False, s2\<lparr>failed_ids := failed_ids s2 @ map vec_id vectors\<rparr>)))"
  by pat_completeness auto
termination
  by (relation "measure (\<lambda>(remote, vectors, retry_count, s). nat (MAX_RETRIES - retry_count))")
    auto

declare insert_batch.simps [simp del]

text \<open>The batches posted and the seconds slept, read off a list of events.\<close>

fun posted :: "('r, 'm) event list \<Rightarrow> 'r list" where
  "posted [] = []"
| "posted (Post r # es) = r # posted es"
| "posted (_ # es) = posted es"

fun slept :: "('r, 'm) event list \<Rightarrow> real list" where
  "slept [] = []"
| "slept (Sleep d # es) = d # slept es"
| "slept (_ # es) = slept es"

text \<open>
  An attempt raises when the \<^verbatim>\<open>try\<close> block ends in the \<^verbatim>\<open>except\<close> handler; it fails
  when \<^verbatim>\<open>insert_batch\<close> does not take the branch that returns \<^verbatim>\<open>True\<close> (an exception,
  or a body whose \<^verbatim>\<open>success\<close> is absent or false).
\<close>

definition attempt_raises :: "http \<Rightarrow> bool" where
  "attempt_raises h = (case attempt h of Inl e \<Rightarrow> True | Inr r \<Rightarrow> False)"

definition attempt_fails :: "http \<Rightarrow> bool" where
  "attempt_fails h = (case attempt h of Inr (result, True) \<Rightarrow> False | _ \<Rightarrow> True)"


section \<open>The embedding generator (tools/vectorize/02\_batch\_embed.py)\<close>

definition REQUESTS_PER_MINUTE :: nat where
  "REQUESTS_PER_MINUTE = 50"

definition BATCH_SIZE :: nat where
  "BATCH_SIZE = 10"

subsection \<open>Lessons and the text built from them\<close>

text \<open>
  A lesson is a \<^verbatim>\<open>dict\<close> read from \<^verbatim>\<open>curriculum.json\<close>. Its fields hold the JSON scalars
  the record of the specification has: a string, an integer, or \<^verbatim>\<open>null\<close>
  (\<^verbatim>\<open>None\<close>). A key that is absent from the dict is absent from the map.
\<close>

datatype pyval = PNone | PInt int | PStr string

type_synonym lesson = "string \<rightharpoonup> pyval"

text \<open>\<^verbatim>\<open>str(n)\<close> of an integer, and the text an f-string puts for a field.\<close>

fun nat_str :: "nat \<Rightarrow> string" where
  "nat_str n =
     (if n < 10 then [char_of (48 + n)]
      else nat_str (n div 10) @ [char_of (48 + n mod 10)])"

declare nat_str.simps [simp del]

definition int_str :: "int \<Rightarrow> string" where
  "int_str i = (if i < 0 then CHR ''-'' # nat_str (nat (- i)) else nat_str (nat i))"

fun py_str :: "pyval \<Rightarrow> string" where
  "py_str PNone = ''None''"
| "py_str (PInt i) = int_str i"
| "py_str (PStr s) = s"

text \<open>
  \<^verbatim>\<open>lesson[key]\<close> raises \<^verbatim>\<open>KeyError\<close> on a missing key; \<^verbatim>\<open>lesson.get(key, default)\<close>
  gives the default, and \<^verbatim>\<open>lesson.get(key)\<close> gives \<^verbatim>\<open>None\<close>.
\<close>

definition item :: "lesson \<Rightarrow> string \<Rightarrow> exn + pyval" where
  "item lesson k = (case lesson k of None \<Rightarrow> Inl (KeyError k) | Some v \<Rightarrow> Inr v)"

definition get_default :: "lesson \<Rightarrow> string \<Rightarrow> pyval \<Rightarrow> pyval" where
  "get_default lesson k d = (case lesson k of None \<Rightarrow> d | Some v \<Rightarrow> v)"

text \<open>
  \<^verbatim>\<open>create_lesson_text\<close>: the f-string reads \<^verbatim>\<open>title\<close>, \<^verbatim>\<open>tacticalConcept\<close>,
  \<^verbatim>\<open>historicalValidator\<close> and \<^verbatim>\<open>phase\<close> in this order; the first three with
  \<^verbatim>\<open>lesson[...]\<close>, the last with \<^verbatim>\<open>lesson.get('phase', 'UNKNOWN')\<close>.
\<close>

definition create_lesson_text :: "lesson \<Rightarrow> exn + string" where
  "create_lesson_text lesson =
     (case item lesson ''title'' of
        Inl e \<Rightarrow> Inl e
      | Inr title_v \<Rightarrow>
     (case item lesson ''tacticalConcept'' of
        Inl e \<Rightarrow> Inl e
      | Inr concept_v \<Rightarrow>
     (case item lesson ''historicalValidator'' of
        Inl e \<Rightarrow> Inl e
      | Inr validator_v \<Rightarrow>
          Inr (py_str title_v @ '' | '' @
               py_str concept_v @ '' | '' @
               py_str validator_v @ '' | '' @
               ''Phase: '' @ py_str (get_default lesson ''phase'' (PStr ''UNKNOWN''))))))"

subsection \<open>The cache and its file\<close>

text \<open>
  An entry of \<^verbatim>\<open>embeddings_cache\<close>:
  \<^verbatim>\<open>{"vector": ..., "text": ..., "metadata": {"title", "phase", "module_id", "concept"}}\<close>.
  The cache is a Python dict: an association list with distinct keys, in the order the
  keys were first stored (\<open>AList.update\<close> replaces the entry of a key in place and puts a
  new key last, as \<^verbatim>\<open>d[k] = v\<close> does).
\<close>

record metadata =
  title :: pyval
  phase :: pyval
  module_id :: pyval
  concept :: pyval

record cache_entry =
  vector :: json
  entry_text :: string
  metadata :: metadata

type_synonym cache = "(pyval \<times> cache_entry) list"

text \<open>
  The cache file holds a JSON object, so its keys are strings: \<^verbatim>\<open>json.dump\<close> turns a key
  that is an integer into its decimal text and \<^verbatim>\<open>None\<close> into \<^verbatim>\<open>null\<close>, and
  \<^verbatim>\<open>json.load\<close> builds the dict pair by pair, a later pair replacing an earlier one
  of the same key.
\<close>

type_synonym document = "(string \<times> cache_entry) list"

fun json_key :: "pyval \<Rightarrow> string" where
  "json_key PNone = ''null''"
| "json_key (PInt i) = int_str i"
| "json_key (PStr s) = s"

definition json_dump :: "cache \<Rightarrow> document" where
  "json_dump c = map (\<lambda>(k, e). (json_key k, e)) c"

definition json_load :: "document \<Rightarrow> cache" where
  "json_load d = foldl (\<lambda>c (k, e). AList.update (PStr k) e c) [] d"

text \<open>
  A file of the working directory as \<^verbatim>\<open>Path.exists\<close> and \<^verbatim>\<open>json.load\<close> see it: not there,
  there with a content that is not JSON (an empty or half-written file is such a
  content), or there with a document.
\<close>

datatype 'a disk_file = Missing | Garbage | Document 'a

text \<open>The console lines of the script, one constructor for each \<^verbatim>\<open>print\<close>.\<close>

datatype emb_msg =
    Msg_loaded nat
  | Msg_saved nat
  | Msg_unexpected_format json
  | Msg_generation_failed exn
  | Msg_starting nat
  | Msg_rule
  | Msg_cached nat nat pyval
  | Msg_generating nat nat pyval
  | Msg_complete nat nat pyval
  | Msg_FAILED nat nat pyval
  | Msg_rate_limit_pause nat nat
  | Msg_summary
  | Msg_generated_count nat
  | Msg_cached_count nat
  | Msg_failed_count nat
  | Msg_no_curriculum
  | Msg_no_lessons
  | Msg_banner
  | Msg_pipeline_complete
  | Msg_missing_env
  | Msg_set_env

text \<open>
  The field \<^verbatim>\<open>embeddings_cache\<close> of \<^verbatim>\<open>EmbeddingGenerator\<close> together with the world the
  script acts on: the cache file \<^verbatim>\<open>data/embeddings/lesson_vectors.json\<close>, the number of
  requests sent to the embedding service so far, and the events so far. The embedding
  service is a function from the number of earlier requests and the text sent to what
  that request meets.
\<close>

record generator =
  embeddings_cache :: cache
  cache_file :: "document disk_file"
  requests :: nat
  trace :: "(string, emb_msg) event list"

type_synonym embedding_service = "nat \<Rightarrow> string \<Rightarrow> http"

text \<open>
  \<^verbatim>\<open>_load_cache\<close>: nothing happens when the file does not exist; otherwise
  \<^verbatim>\<open>json.load\<close> reads it, and its exception is not caught.
\<close>

definition load_cache :: "generator \<Rightarrow> exn + generator" where
  "load_cache g =
     (case cache_file g of
        Missing \<Rightarrow> Inr g
      | Garbage \<Rightarrow> Inl JSONDecodeError
      | Document d \<Rightarrow>
          Inr (g\<lparr>embeddings_cache := json_load d,
                 trace := trace g @ [Print (Msg_loaded (length (json_load d)))]\<rparr>))"

text \<open>\<^verbatim>\<open>__init__\<close>: \<^verbatim>\<open>self.embeddings_cache = {}\<close>, then \<^verbatim>\<open>self._load_cache()\<close>.\<close>

definition init_generator :: "generator \<Rightarrow> exn + generator" where
  "init_generator g = load_cache (g\<lparr>embeddings_cache := []\<rparr>)"

text \<open>
  \<^verbatim>\<open>_save_cache\<close> is three steps on the file system, each acting on the path of the
  cache file itself: \<^verbatim>\<open>mkdir(parents=True, exist_ok=True)\<close> of the directory,
  \<^verbatim>\<open>open(self.cache_file, 'w')\<close>, which creates the file or truncates it to nothing, and
  \<^verbatim>\<open>json.dump\<close> with the close at the end of the \<^verbatim>\<open>with\<close> block, after which the file
  holds the serialised cache. A run that is killed has made the steps before the kill.
\<close>

datatype fs_step = Mkdir_parent | Open_w | Dump_and_close document

fun fs_apply :: "document disk_file \<Rightarrow> fs_step \<Rightarrow> document disk_file" where
  "fs_apply f Mkdir_parent = f"
| "fs_apply f Open_w = Garbage"
| "fs_apply f (Dump_and_close d) = Document d"

definition save_steps :: "cache \<Rightarrow> fs_step list" where
  "save_steps c = [Mkdir_parent, Open_w, Dump_and_close (json_dump c)]"

definition save_cache :: "generator \<Rightarrow> generator" where
  "save_cache g =
     g\<lparr>cache_file := foldl fs_apply (cache_file g) (save_steps (embeddings_cache g)),
       trace := trace g @ [Print (Msg_saved (length (embeddings_cache g)))]\<rparr>"

text \<open>The cache file after a kill that lets only the first \<open>k\<close> steps of a flush happen.\<close>

definition killed_in_save :: "nat \<Rightarrow> generator \<Rightarrow> document disk_file" where
  "killed_in_save k g = foldl fs_apply (cache_file g) (take k (save_steps (embeddings_cache g)))"


subsection \<open>One remote call\<close>

text \<open>
  \<^verbatim>\<open>x[key]\<close> with a string key and \<^verbatim>\<open>x[0]\<close>, on a decoded JSON value: a dict raises
  \<^verbatim>\<open>KeyError\<close> on a key it does not have, a list and a string raise \<^verbatim>\<open>IndexError\<close> when
  empty, and every other combination raises \<^verbatim>\<open>TypeError\<close>.
\<close>

fun py_item :: "json \<Rightarrow> string \<Rightarrow> exn + json" where
  "py_item (JObj kvs) k = (case map_of kvs k of None \<Rightarrow> Inl (KeyError k) | Some v \<Rightarrow> Inr v)"
| "py_item _ k = Inl TypeError"

fun py_first :: "json \<Rightarrow> exn + json" where
  "py_first (JArr xs) = (case xs of [] \<Rightarrow> Inl IndexError | x # _ \<Rightarrow> Inr x)"
| "py_first (JStr s) = (case s of [] \<Rightarrow> Inl IndexError | c # _ \<Rightarrow> Inr (JStr [c]))"
| "py_first (JObj kvs) = Inl (KeyError ''0'')"
| "py_first _ = Inl TypeError"

text \<open>
  The rest of the \<^verbatim>\<open>try\<close> block of \<^verbatim>\<open>generate_embedding\<close>, from the decoded body:
  \<^verbatim>\<open>if result.get("success") and "result" in result: return result["result"]["data"][0]\<close>.
  \<open>Some v\<close> is that \<^verbatim>\<open>return\<close>; \<open>None\<close> is the fall through to the line that reports
  an unexpected format.
\<close>

fun embedding_in :: "json \<Rightarrow> exn + json option" where
  "embedding_in (JObj kvs) =
     (if truthy (case map_of kvs ''success'' of None \<Rightarrow> JNull | Some v \<Rightarrow> v)
         \<and> map_of kvs ''result'' \<noteq> None
      then
        (case py_item (JObj kvs) ''result'' of
           Inl e \<Rightarrow> Inl e
         | Inr r \<Rightarrow>
        (case py_item r ''data'' of
           Inl e \<Rightarrow> Inl e
         | Inr d \<Rightarrow>
        (case py_first d of
           Inl e \<Rightarrow> Inl e
         | Inr v \<Rightarrow> Inr (Some v))))
      else Inr None)"
| "embedding_in _ = Inl AttributeError"

text \<open>
  \<^verbatim>\<open>generate_embedding\<close> returns the vector, or \<^verbatim>\<open>None\<close> (here \<open>JNull\<close>) after an
  unexpected format or an exception.
\<close>

definition generate_embedding ::
  "embedding_service \<Rightarrow> string \<Rightarrow> generator \<Rightarrow> json \<times> generator" where
  "generate_embedding remote txt g =
     (let g1 = g\<lparr>requests := requests g + 1, trace := trace g @ [Post txt]\<rparr> in
      case post_json (remote (requests g) txt) of
        Inl e \<Rightarrow> (JNull, g1\<lparr>trace := trace g1 @ [Print (Msg_generation_failed e)]\<rparr>)
      | Inr result \<Rightarrow>
          (case embedding_in result of
             Inl e \<Rightarrow> (JNull, g1\<lparr>trace := trace g1 @ [Print (Msg_generation_failed e)]\<rparr>)
           | Inr (Some v) \<Rightarrow> (v, g1)
           | Inr None \<Rightarrow>
               (JNull, g1\<lparr>trace := trace g1 @ [Print (Msg_unexpected_format result)]\<rparr>)))"

subsection \<open>The loop over the lessons\<close>

text \<open>The counters \<^verbatim>\<open>embedded\<close>, \<^verbatim>\<open>skipped\<close> and \<^verbatim>\<open>failed\<close> of \<^verbatim>\<open>batch_embed_lessons\<close>.\<close>

record tally =
  embedded :: nat
  skipped :: nat
  failed :: nat

text \<open>\<^verbatim>\<open>60 / REQUESTS_PER_MINUTE * BATCH_SIZE\<close>, the seconds of the rate limit pause.\<close>

definition rate_limit_pause :: real where
  "rate_limit_pause = 60 / real REQUESTS_PER_MINUTE * real BATCH_SIZE"

text \<open>The test \<^verbatim>\<open>lesson_id in self.embeddings_cache and not force_regen\<close>.\<close>

definition cache_hit :: "bool \<Rightarrow> pyval \<Rightarrow> generator \<Rightarrow> bool" where
  "cache_hit force_regen lesson_id g =
     (map_of (embeddings_cache g) lesson_id \<noteq> None \<and> \<not> force_regen)"

text \<open>The dict stored in the cache for a lesson.\<close>

definition new_entry :: "lesson \<Rightarrow> json \<Rightarrow> string \<Rightarrow> exn + cache_entry" where
  "new_entry lesson embedding lesson_text =
     (case item lesson ''title'' of
        Inl e \<Rightarrow> Inl e
      | Inr title_v \<Rightarrow>
     (case item lesson ''tacticalConcept'' of
        Inl e \<Rightarrow> Inl e
      | Inr concept_v \<Rightarrow>
          Inr \<lparr>vector = embedding, entry_text = lesson_text,
               metadata = \<lparr>title = title_v,
                           phase = get_default lesson ''phase'' PNone,
                           module_id = get_default lesson ''moduleId'' PNone,
                           concept = concept_v\<rparr>\<rparr>))"

text \<open>The two tests at the end of the loop body, which a \<^verbatim>\<open>continue\<close> skips.\<close>

definition end_of_iteration :: "nat \<Rightarrow> nat \<Rightarrow> generator \<Rightarrow> generator" where
  "end_of_iteration len i g =
     (let g1 = (if i mod BATCH_SIZE = 0
                then g\<lparr>trace := trace g @ [Print (Msg_rate_limit_pause i len),
                                             Sleep rate_limit_pause]\<rparr>
                else g)
      in if i mod 20 = 0 then save_cache g1 else g1)"

text \<open>
  One iteration of \<^verbatim>\<open>for i, lesson in enumerate(lessons, 1)\<close>. The result is the
  exception that leaves the loop, if any, with the counters and the state at that
  moment.
\<close>

fun embed_lesson ::
  "embedding_service \<Rightarrow> bool \<Rightarrow> nat \<Rightarrow> nat \<Rightarrow> lesson \<Rightarrow> tally \<times> generator
     \<Rightarrow> exn option \<times> tally \<times> generator" where
  "embed_lesson remote force_regen len i lesson (t, g) =
     (case item lesson ''id'' of
        Inl e \<Rightarrow> (Some e, t, g)
      | Inr lesson_id \<Rightarrow>
          if cache_hit force_regen lesson_id g then
            (None, t\<lparr>skipped := skipped t + 1\<rparr>,
                   g\<lparr>trace := trace g @ [Print (Msg_cached i len lesson_id)]\<rparr>)
          else
            (case create_lesson_text lesson of
               Inl e \<Rightarrow> (Some e, t, g)
             | Inr lesson_text \<Rightarrow>
                 (let g1 = g\<lparr>trace := trace g @ [Print (Msg_generating i len lesson_id)]\<rparr>;
                      (embedding, g2) = generate_embedding remote lesson_text g1
                  in if truthy embedding then
                       (case new_entry lesson embedding lesson_text of
                          Inl e \<Rightarrow> (Some e, t, g2)
                        | Inr entry \<Rightarrow>
                            (None, t\<lparr>embedded := embedded t + 1\<rparr>,
                             end_of_iteration len i
                               (g2\<lparr>embeddings_cache :=
                                      AList.update lesson_id entry (embeddings_cache g2),
                                    trace := trace g2 @ [Print (Msg_complete i len lesson_id)]\<rparr>)))
                     else
                       (None, t\<lparr>failed := failed t + 1\<rparr>,
                        end_of_iteration len i
                          (g2\<lparr>trace := trace g2 @ [Print (Msg_FAILED i len lesson_id)]\<rparr>)))))"

fun embed_loop ::
  "embedding_service \<Rightarrow> bool \<Rightarrow> nat \<Rightarrow> nat \<Rightarrow> lesson list \<Rightarrow> tally \<times> generator
     \<Rightarrow> exn option \<times> tally \<times> generator" where
  "embed_loop remote force_regen len i [] tg = (None, tg)"
| "embed_loop remote force_regen len i (lesson # rest) tg =
     (case embed_lesson remote force_regen len i lesson tg of
        (Some e, tg') \<Rightarrow> (Some e, tg')
      | (None, tg') \<Rightarrow> embed_loop remote force_regen len (i + 1) rest tg')"

text \<open>
  \<^verbatim>\<open>batch_embed_lessons\<close>: the loop, then the final save and the summary. An exception
  of the loop is not caught, so it skips both.
\<close>

definition batch_embed_lessons ::
  "embedding_service \<Rightarrow> lesson list \<Rightarrow> bool \<Rightarrow> generator \<Rightarrow> exn option \<times> generator" where
  "batch_embed_lessons remote lessons force_regen g =
     (let g0 = g\<lparr>trace := trace g @ [Print (Msg_starting (length lessons)), Print Msg_rule]\<rparr> in
      case embed_loop remote force_regen (length lessons) 1 lessons
             (\<lparr>embedded = 0, skipped = 0, failed = 0\<rparr>, g0) of
        (Some e, t, g1) \<Rightarrow> (Some e, g1)
      | (None, t, g1) \<Rightarrow>
          (let g2 = save_cache g1 in
           (None, g2\<lparr>trace := trace g2 @
                       [Print Msg_rule, Print Msg_summary,
                        Print (Msg_generated_count (embedded t)),
                        Print (Msg_cached_count (skipped t)),
                        Print (Msg_failed_count (failed t)),
                        Print Msg_rule]\<rparr>)))"

subsection \<open>The script\<close>

text \<open>
  \<^verbatim>\<open>data/curriculum.json\<close> as \<^verbatim>\<open>main\<close> reads it: a document is the dict's \<^verbatim>\<open>lessons\<close>
  entry, \<open>None\<close> when the dict has no such key.
\<close>

type_synonym curriculum = "lesson list option"

definition main ::
  "embedding_service \<Rightarrow> curriculum disk_file \<Rightarrow> generator \<Rightarrow> exn option \<times> generator" where
  "main remote curriculum_file w =
     (case curriculum_file of
        Missing \<Rightarrow> (None, w\<lparr>trace := trace w @ [Print Msg_no_curriculum]\<rparr>)
      | Garbage \<Rightarrow> (Some JSONDecodeError, w)
      | Document curriculum \<Rightarrow>
          (let lessons = (case curriculum of None \<Rightarrow> [] | Some ls \<Rightarrow> ls) in
           if lessons = [] then (None, w\<lparr>trace := trace w @ [Print Msg_no_lessons]\<rparr>)
           else
             (let w1 = w\<lparr>trace := trace w @ [Print Msg_banner]\<rparr> in
              case init_generator w1 of
                Inl e \<Rightarrow> (Some e, w1)
              | Inr g \<Rightarrow>
                  (case batch_embed_lessons remote lessons False g of
                     (Some e, g') \<Rightarrow> (Some e, g')
                   | (None, g') \<Rightarrow>
                       (None, g'\<lparr>trace := trace g' @ [Print Msg_pipeline_complete]\<rparr>)))))"

text \<open>
  The environment of the script, and the \<^verbatim>\<open>if __name__ == "__main__"\<close> block. The result
  is the exit status of the process: \<^verbatim>\<open>exit(1)\<close> gives 1, a \<^verbatim>\<open>main()\<close> that returns
  gives 0, and an exception that nothing catches gives 1.
\<close>

record config =
  ACCOUNT_ID :: "string option"
  API_TOKEN :: "string option"

definition unset :: "string option \<Rightarrow> bool" where
  "unset v = (v = None \<or> v = Some [])"

definition main_guard ::
  "config \<Rightarrow> embedding_service \<Rightarrow> curriculum disk_file \<Rightarrow> generator \<Rightarrow> nat \<times> generator" where
  "main_guard cfg remote curriculum_file w =
     (if unset (ACCOUNT_ID cfg) \<or> unset (API_TOKEN cfg) then
        (1, w\<lparr>trace := trace w @ [Print Msg_missing_env, Print Msg_set_env]\<rparr>)
      else
        (case main remote curriculum_file w of
           (None, w') \<Rightarrow> (0, w')
         | (Some e, w') \<Rightarrow> (1, w')))"

declare embed_lesson.simps [simp del]

subsection \<open>What the statements below observe\<close>

text \<open>
  A lesson is cached in a cache when it has an \<^verbatim>\<open>id\<close> and the cache has an entry for
  it; it is skipped as cached when the test at the head of the loop body sends it to
  \<^verbatim>\<open>continue\<close>.
\<close>

definition cached_in :: "cache \<Rightarrow> lesson \<Rightarrow> bool" where
  "cached_in c lesson = (case lesson ''id'' of None \<Rightarrow> False | Some k \<Rightarrow> map_of c k \<noteq> None)"

definition skipped_as_cached :: "bool \<Rightarrow> lesson \<Rightarrow> generator \<Rightarrow> bool" where
  "skipped_as_cached force_regen lesson g =
     (case lesson ''id'' of None \<Rightarrow> False | Some k \<Rightarrow> cache_hit force_regen k g)"

text \<open>
  The pauses the console lines of a run account for: one for every line
  \<^verbatim>\<open>[i/n] id: generating...\<close> whose position \<open>i\<close> is a multiple of \<^verbatim>\<open>BATCH_SIZE\<close>. That
  line is printed exactly for the records that are sent to the embedding service.
\<close>

fun due :: "(string, emb_msg) event list \<Rightarrow> real list" where
  "due [] = []"
| "due (Print (Msg_generating i len k) # es) =
     (if i mod BATCH_SIZE = 0 then rate_limit_pause # due es else due es)"
| "due (_ # es) = due es"



section \<open>Inputs for worked examples\<close>

text \<open>Remote indexes: one that answers \<^verbatim>\<open>{"success": false}\<close> to every request, one whose
  answers have no \<^verbatim>\<open>success\<close> entry, one that cannot be reached, and one that answers 503
  to the first request and accepts every later one.\<close>

definition always_rejects :: index_service where
  "always_rejects n vs = Http_response 200 (Some (JObj [(''success'', JBool False)]))"

definition never_confirms :: index_service where
  "never_confirms n vs = Http_response 200 (Some (JObj []))"

definition always_down :: index_service where
  "always_down n vs = Transport_error"

definition down_once :: index_service where
  "down_once n vs =
     (if n = 0 then Http_response 503 None
      else Http_response 200 (Some (JObj [(''success'', JBool True)])))"

definition new_inserter :: inserter where
  "new_inserter = \<lparr>inserted_count = 0, failed_ids = [], posts = 0, events = []\<rparr>"

definition vec_L01 :: vec where
  "vec_L01 = \<lparr>vec_id = ''L01'', vec_values = JArr [JNum 1], vec_metadata = JObj []\<rparr>"

definition vec_L02 :: vec where
  "vec_L02 = \<lparr>vec_id = ''L02'', vec_values = JArr [JNum 2], vec_metadata = JObj []\<rparr>"

text \<open>Lessons, embedding services, an entry, start states and environments.\<close>

definition lesson_L01 :: lesson where
  "lesson_L01 = [''id'' \<mapsto> PStr ''L01'', ''title'' \<mapsto> PStr ''Feint'',
                 ''tacticalConcept'' \<mapsto> PStr ''Deception'',
                 ''historicalValidator'' \<mapsto> PStr ''Cannae'',
                 ''phase'' \<mapsto> PStr ''I'', ''moduleId'' \<mapsto> PInt 1]"

definition lesson_L02 :: lesson where
  "lesson_L02 = [''id'' \<mapsto> PStr ''L02'', ''title'' \<mapsto> PStr ''Siege'',
                 ''tacticalConcept'' \<mapsto> PStr ''Attrition'',
                 ''historicalValidator'' \<mapsto> PStr ''Alesia'']"

definition ten_cached_lessons :: "lesson list" where
  "ten_cached_lessons = replicate 10 lesson_L01"

definition embeds_ok :: embedding_service where
  "embeds_ok n t =
     Http_response 200 (Some (JObj [(''success'', JBool True),
       (''result'', JObj [(''data'', JArr [JArr [JNum 1, JNum 2, JNum 3, JNum 4]])])]))"

definition embeds_empty :: embedding_service where
  "embeds_empty n t =
     Http_response 200 (Some (JObj [(''success'', JBool True),
       (''result'', JObj [(''data'', JArr [JArr []])])]))"

definition entry_L01 :: cache_entry where
  "entry_L01 =
     \<lparr>vector = JArr [JNum 1, JNum 2, JNum 3, JNum 4],
      entry_text = ''Feint | Deception | Cannae | Phase: I'',
      metadata = \<lparr>title = PStr ''Feint'', phase = PStr ''I'', module_id = PInt 1,
                  concept = PStr ''Deception''\<rparr>\<rparr>"

definition cold_start :: generator where
  "cold_start = \<lparr>embeddings_cache = [], cache_file = Missing, requests = 0, trace = []\<rparr>"

definition warm_start :: generator where
  "warm_start = \<lparr>embeddings_cache = [(PStr ''L01'', entry_L01)],
                  cache_file = Document [(''L01'', entry_L01)], requests = 0, trace = []\<rparr>"

definition garbled_start :: generator where
  "garbled_start = \<lparr>embeddings_cache = [], cache_file = Garbage, requests = 0, trace = []\<rparr>"

definition credentials :: config where
  "credentials = \<lparr>ACCOUNT_ID = Some ''account'', API_TOKEN = Some ''token''\<rparr>"

definition no_token :: config where
  "no_token = \<lparr>ACCOUNT_ID = Some ''account'', API_TOKEN = None\<rparr>"


section \<open>Properties of the batch uploader\<close>

subsection \<open>The four ways one call can go\<close>

lemma posted_append: "posted (xs @ ys) = posted xs @ posted ys"
  by (induction xs rule: posted.induct) simp_all

lemma slept_append: "slept (xs @ ys) = slept xs @ slept ys"
  by (induction xs rule: slept.induct) simp_all

lemma insert_batch_raised:
  assumes "attempt (remote (posts s) vectors) = Inl e" and "retry_count < MAX_RETRIES"
  shows "insert_batch remote vectors retry_count s =
     insert_batch remote vectors (retry_count + 1)
       (s\<lparr>posts := posts s + 1,
          events := events s @ [Post vectors, Print (Msg_insertion_failed (retry_count + 1) e),
                                Print Msg_retrying, Sleep RETRY_DELAY]\<rparr>)"
  using assms by (subst insert_batch.simps) (simp add: Let_def)

lemma insert_batch_exhausted:
  assumes "attempt (remote (posts s) vectors) = Inl e" and "\<not> retry_count < MAX_RETRIES"
  shows "insert_batch remote vectors retry_count s =
     (False, s\<lparr>posts := posts s + 1,
          events := events s @ [Post vectors, Print (Msg_insertion_failed (retry_count + 1) e)],
          failed_ids := failed_ids s @ map vec_id vectors\<rparr>)"
  using assms by (subst insert_batch.simps) (simp add: Let_def)

lemma insert_batch_accepted:
  assumes "attempt (remote (posts s) vectors) = Inr (result, True)"
  shows "insert_batch remote vectors retry_count s =
     (True, s\<lparr>posts := posts s + 1,
          inserted_count := inserted_count s + length vectors,
          events := events s @ [Post vectors, Print (Msg_inserted (length vectors))]\<rparr>)"
  using assms by (subst insert_batch.simps) (simp add: Let_def)

lemma insert_batch_rejected:
  assumes "attempt (remote (posts s) vectors) = Inr (result, False)"
  shows "insert_batch remote vectors retry_count s =
     (False, s\<lparr>posts := posts s + 1,
          events := events s @ [Post vectors, Print (Msg_success_false result)]\<rparr>)"
  using assms by (subst insert_batch.simps) (simp add: Let_def)

lemma events_extend:
  "\<exists>rest. events (snd (insert_batch remote vectors retry_count s)) = events s @ Post vectors # rest"
proof (induction remote vectors retry_count s rule: insert_batch.induct)
  case (1 remote vectors retry_count s)
  show ?case
  proof (cases "attempt (remote (posts s) vectors)")
    case (Inl e)
    show ?thesis
    proof (cases "retry_count < MAX_RETRIES")
      case True
      from "1.IH"[OF refl Inl refl True] obtain rest where
        "events (snd (insert_batch remote vectors (retry_count + 1)
           (s\<lparr>posts := posts s + 1,
              events := events s @ [Post vectors, Print (Msg_insertion_failed (retry_count + 1) e),
                                Print Msg_retrying, Sleep RETRY_DELAY]\<rparr>))) =
         (events s @ [Post vectors, Print (Msg_insertion_failed (retry_count + 1) e),
                                Print Msg_retrying, Sleep RETRY_DELAY]) @ Post vectors # rest"
        by auto
      then show ?thesis
        by (simp add: insert_batch_raised[where remote=remote and s=s, OF Inl True])
    next
      case False
      with Inl show ?thesis by (simp add: insert_batch_exhausted)
    qed
  next
    case (Inr p)
    then show ?thesis
      by (cases p; cases "snd p") (simp_all add: insert_batch_accepted insert_batch_rejected)
  qed
qed

lemma posts_bounds:
  "posts s < posts (snd (insert_batch remote vectors retry_count s)) \<and>
   posts (snd (insert_batch remote vectors retry_count s))
     \<le> posts s + 1 + nat (MAX_RETRIES - retry_count)"
proof (induction remote vectors retry_count s rule: insert_batch.induct)
  case (1 remote vectors retry_count s)
  show ?case
  proof (cases "attempt (remote (posts s) vectors)")
    case (Inl e)
    show ?thesis
    proof (cases "retry_count < MAX_RETRIES")
      case True
      have step: "nat (MAX_RETRIES - retry_count) = Suc (nat (MAX_RETRIES - (retry_count + 1)))"
        using True by simp
      from "1.IH"[OF refl Inl refl True] show ?thesis
        by (simp add: insert_batch_raised[where remote=remote and s=s, OF Inl True] step)
    next
      case False
      with Inl show ?thesis by (simp add: insert_batch_exhausted)
    qed
  next
    case (Inr p)
    then show ?thesis
      by (cases p; cases "snd p") (simp_all add: insert_batch_accepted insert_batch_rejected)
  qed
qed

lemma every_attempt_raises:
  assumes "\<forall>k \<le> nat (MAX_RETRIES - retry_count). attempt_raises (remote (posts s + k) vectors)"
  shows "fst (insert_batch remote vectors retry_count s) = False \<and>
         posts (snd (insert_batch remote vectors retry_count s))
           = posts s + 1 + nat (MAX_RETRIES - retry_count) \<and>
         failed_ids (snd (insert_batch remote vectors retry_count s))
           = failed_ids s @ map vec_id vectors \<and>
         inserted_count (snd (insert_batch remote vectors retry_count s)) = inserted_count s \<and>
         posted (events (snd (insert_batch remote vectors retry_count s)))
           = posted (events s) @ replicate (1 + nat (MAX_RETRIES - retry_count)) vectors \<and>
         slept (events (snd (insert_batch remote vectors retry_count s)))
           = slept (events s) @ replicate (nat (MAX_RETRIES - retry_count)) RETRY_DELAY"
  using assms
proof (induction remote vectors retry_count s rule: insert_batch.induct)
  case (1 remote vectors retry_count s)
  from "1.prems" have "attempt_raises (remote (posts s + 0) vectors)" by blast
  then obtain e where Inl: "attempt (remote (posts s) vectors) = Inl e"
    by (auto simp: attempt_raises_def split: sum.splits)
  show ?case
  proof (cases "retry_count < MAX_RETRIES")
    case True
    have step: "nat (MAX_RETRIES - retry_count) = Suc (nat (MAX_RETRIES - (retry_count + 1)))"
      using True by simp
    let ?s' = "s\<lparr>posts := posts s + 1,
          events := events s @ [Post vectors, Print (Msg_insertion_failed (retry_count + 1) e),
                                Print Msg_retrying, Sleep RETRY_DELAY]\<rparr>"
    have later: "\<forall>k \<le> nat (MAX_RETRIES - (retry_count + 1)).
        attempt_raises (remote (posts ?s' + k) vectors)"
    proof (intro allI impI)
      fix k assume "k \<le> nat (MAX_RETRIES - (retry_count + 1))"
      then have "Suc k \<le> nat (MAX_RETRIES - retry_count)" using step by simp
      with "1.prems" have "attempt_raises (remote (posts s + Suc k) vectors)" by blast
      then show "attempt_raises (remote (posts ?s' + k) vectors)" by simp
    qed
    have IH: "fst (insert_batch remote vectors (retry_count + 1) ?s') = False \<and>
         posts (snd (insert_batch remote vectors (retry_count + 1) ?s'))
           = posts ?s' + 1 + nat (MAX_RETRIES - (retry_count + 1)) \<and>
         failed_ids (snd (insert_batch remote vectors (retry_count + 1) ?s'))
           = failed_ids ?s' @ map vec_id vectors \<and>
         inserted_count (snd (insert_batch remote vectors (retry_count + 1) ?s')) = inserted_count ?s' \<and>
         posted (events (snd (insert_batch remote vectors (retry_count + 1) ?s')))
           = posted (events ?s') @ replicate (1 + nat (MAX_RETRIES - (retry_count + 1))) vectors \<and>
         slept (events (snd (insert_batch remote vectors (retry_count + 1) ?s')))
           = slept (events ?s') @ replicate (nat (MAX_RETRIES - (retry_count + 1))) RETRY_DELAY"
      using "1.IH"[OF refl Inl refl True] later by simp
    show ?thesis
      unfolding insert_batch_raised[where remote=remote and s=s, OF Inl True] step
      using IH by (simp add: posted_append slept_append replicate_app_Cons_same)
  next
    case False
    then have "nat (MAX_RETRIES - retry_count) = 0" by simp
    with Inl False show ?thesis
      by (simp add: insert_batch_exhausted posted_append slept_append)
  qed
qed

subsection \<open>Claims\<close>

text \<open>
  Claim C1, as amended. When the attempt of \<^verbatim>\<open>insert_batch\<close> raises (a transport failure,
  an HTTP error status, a body that does not decode) and \<^verbatim>\<open>retry_count < MAX_RETRIES\<close>, the
  call reports the failure, sleeps the fixed \<^verbatim>\<open>RETRY_DELAY\<close>, and calls itself on the same
  batch with \<^verbatim>\<open>retry_count + 1\<close>: the next request after the sleep carries the whole batch
  again. The delay is the constant \<^verbatim>\<open>RETRY_DELAY\<close>, whatever the retry count.
\<close>

theorem insert_batch_retries_after_exception:
  assumes "attempt (remote (posts s) vectors) = Inl e" and "retry_count < MAX_RETRIES"
  shows "insert_batch remote vectors retry_count s =
           insert_batch remote vectors (retry_count + 1)
             (s\<lparr>posts := posts s + 1,
                events := events s @
                  [Post vectors, Print (Msg_insertion_failed (retry_count + 1) e),
                   Print Msg_retrying, Sleep RETRY_DELAY]\<rparr>)
         \<and> (\<exists>rest. events (snd (insert_batch remote vectors retry_count s)) =
               events s @
                 [Post vectors, Print (Msg_insertion_failed (retry_count + 1) e),
                  Print Msg_retrying, Sleep RETRY_DELAY, Post vectors] @ rest)"
proof -
  let ?s' = "s\<lparr>posts := posts s + 1,
                events := events s @
                  [Post vectors, Print (Msg_insertion_failed (retry_count + 1) e),
                   Print Msg_retrying, Sleep RETRY_DELAY]\<rparr>"
  have step: "insert_batch remote vectors retry_count s =
      insert_batch remote vectors (retry_count + 1) ?s'"
    by (rule insert_batch_raised[where remote=remote and s=s, OF assms])
  obtain rest where
    "events (snd (insert_batch remote vectors (retry_count + 1) ?s')) =
       events ?s' @ Post vectors # rest"
    using events_extend by blast
  with step show ?thesis by simp
qed

theorem insert_batch_retries_after_exception_witness:
  "attempt (down_once (posts new_inserter) [vec_L01]) = Inl (HTTPError 503)
   \<and> (0::int) < MAX_RETRIES
   \<and> insert_batch down_once [vec_L01] 0 new_inserter =
       (True, \<lparr>inserted_count = 1, failed_ids = [], posts = 2,
               events = [Post [vec_L01], Print (Msg_insertion_failed 1 (HTTPError 503)),
                         Print Msg_retrying, Sleep 5,
                         Post [vec_L01], Print (Msg_inserted 1)]\<rparr>)"
proof -
  have a: "attempt (down_once (posts new_inserter) [vec_L01]) = Inl (HTTPError 503)"
    by (simp add: down_once_def new_inserter_def attempt_def)
  have b: "(0::int) < MAX_RETRIES"
    by (simp add: MAX_RETRIES_def)
  have c: "attempt (down_once (Suc 0) [vec_L01]) = Inr (JObj [(''success'', JBool True)], True)"
    by (simp add: down_once_def attempt_def)
  from insert_batch_retries_after_exception
         [where remote = down_once and s = new_inserter, OF a b] a b c
  show ?thesis
    by (simp add: new_inserter_def insert_batch_accepted RETRY_DELAY_def)
qed

text \<open>
  Claim C1 as stated fails on an explicit \<^verbatim>\<open>success=false\<close> response: with
  \<^verbatim>\<open>retry_count = 0 < MAX_RETRIES\<close> the call returns \<^verbatim>\<open>False\<close> after its single request:
  no sleep, no second request.
\<close>

theorem insert_batch_success_false_counterexample:
  "attempt (always_rejects 0 [vec_L01]) = Inr (JObj [(''success'', JBool False)], False)
   \<and> (0::int) < MAX_RETRIES
   \<and> insert_batch always_rejects [vec_L01] 0 new_inserter =
       (False, \<lparr>inserted_count = 0, failed_ids = [], posts = 1,
                events = [Post [vec_L01],
                          Print (Msg_success_false (JObj [(''success'', JBool False)]))]\<rparr>)"
  by (simp add: insert_batch.simps always_rejects_def new_inserter_def attempt_def
      MAX_RETRIES_def)

text \<open>
  Claim C2, as amended. A batch whose every attempt raises is, from \<^verbatim>\<open>retry_count = 0\<close>,
  tried \<^verbatim>\<open>MAX_RETRIES\<close> more times after the first attempt, each time as the whole batch
  and after a sleep of \<^verbatim>\<open>RETRY_DELAY\<close>; then \<^verbatim>\<open>insert_batch\<close> returns \<^verbatim>\<open>False\<close>, every id
  of the batch has been appended to \<^verbatim>\<open>failed_ids\<close> in order, and \<^verbatim>\<open>inserted_count\<close> is
  what it was.
\<close>

theorem insert_batch_exhausts_retries:
  assumes "\<forall>k \<le> nat MAX_RETRIES. attempt_raises (remote (posts s + k) vectors)"
  shows "fst (insert_batch remote vectors 0 s) = False
         \<and> posts (snd (insert_batch remote vectors 0 s)) = posts s + 1 + nat MAX_RETRIES
         \<and> posted (events (snd (insert_batch remote vectors 0 s)))
             = posted (events s) @ replicate (1 + nat MAX_RETRIES) vectors
         \<and> slept (events (snd (insert_batch remote vectors 0 s)))
             = slept (events s) @ replicate (nat MAX_RETRIES) RETRY_DELAY
         \<and> failed_ids (snd (insert_batch remote vectors 0 s))
             = failed_ids s @ map vec_id vectors
         \<and> inserted_count (snd (insert_batch remote vectors 0 s)) = inserted_count s"
  using every_attempt_raises[of 0 remote s vectors] assms by simp

theorem insert_batch_exhausts_retries_witness:
  "attempt_raises (always_down 0 [vec_L01, vec_L02])
   \<and> attempt_raises (always_down 1 [vec_L01, vec_L02])
   \<and> attempt_raises (always_down 2 [vec_L01, vec_L02])
   \<and> attempt_raises (always_down 3 [vec_L01, vec_L02])
   \<and> fst (insert_batch always_down [vec_L01, vec_L02] 0 new_inserter) = False
   \<and> posts (snd (insert_batch always_down [vec_L01, vec_L02] 0 new_inserter)) = 4
   \<and> posted (events (snd (insert_batch always_down [vec_L01, vec_L02] 0 new_inserter)))
       = [[vec_L01, vec_L02], [vec_L01, vec_L02], [vec_L01, vec_L02], [vec_L01, vec_L02]]
   \<and> slept (events (snd (insert_batch always_down [vec_L01, vec_L02] 0 new_inserter)))
       = [5, 5, 5]
   \<and> failed_ids (snd (insert_batch always_down [vec_L01, vec_L02] 0 new_inserter))
       = [''L01'', ''L02'']
   \<and> inserted_count (snd (insert_batch always_down [vec_L01, vec_L02] 0 new_inserter)) = 0"
proof -
  have down: "attempt_raises (always_down n b)" for n b
    by (simp add: attempt_raises_def always_down_def attempt_def)
  have three: "replicate 3 x = [x, x, x]" and four: "replicate 4 x = [x, x, x, x]" for x :: 'a
    by (simp_all add: numeral_3_eq_3 numeral_Bit0)
  from insert_batch_exhausts_retries[of always_down new_inserter "[vec_L01, vec_L02]"] down
  show ?thesis
    by (simp add: MAX_RETRIES_def RETRY_DELAY_def new_inserter_def vec_L01_def vec_L02_def
        three four)
qed

text \<open>
  Claim C2 as stated fails for a batch that fails without an exception: a response
  with no \<^verbatim>\<open>success\<close> entry makes every attempt fail, yet the batch is sent once, is not
  retried, and none of its ids reaches \<^verbatim>\<open>failed_ids\<close>.
\<close>

theorem insert_batch_unconfirmed_counterexample:
  "attempt_fails (never_confirms 0 [vec_L01, vec_L02])
   \<and> attempt_fails (never_confirms 1 [vec_L01, vec_L02])
   \<and> attempt_fails (never_confirms 2 [vec_L01, vec_L02])
   \<and> attempt_fails (never_confirms 3 [vec_L01, vec_L02])
   \<and> insert_batch never_confirms [vec_L01, vec_L02] 0 new_inserter =
       (False, \<lparr>inserted_count = 0, failed_ids = [], posts = 1,
                events = [Post [vec_L01, vec_L02], Print (Msg_success_false (JObj []))]\<rparr>)"
  by (simp add: insert_batch.simps never_confirms_def new_inserter_def attempt_def
      attempt_fails_def MAX_RETRIES_def)

text \<open>
  Claim C10. \<^verbatim>\<open>insert_batch\<close> is a total function: its recursion is accepted with the
  measure \<^verbatim>\<open>MAX_RETRIES - retry_count\<close>, which every self-call decreases. For every
  remote index, batch, state and \<^verbatim>\<open>retry_count \<ge> 0\<close>, the call sends at least one and at
  most \<^verbatim>\<open>MAX_RETRIES + 1\<close> requests before it returns (at most
  \<^verbatim>\<open>MAX_RETRIES - retry_count + 1\<close>, when that is more than one).
\<close>

theorem insert_batch_attempts_bounded:
  assumes "0 \<le> retry_count"
  shows "posts s < posts (snd (insert_batch remote vectors retry_count s))
         \<and> posts (snd (insert_batch remote vectors retry_count s))
             \<le> posts s + 1 + nat (MAX_RETRIES - retry_count)
         \<and> posts (snd (insert_batch remote vectors retry_count s))
             \<le> posts s + nat MAX_RETRIES + 1"
proof -
  have "nat (MAX_RETRIES - retry_count) \<le> nat MAX_RETRIES"
    using assms by simp
  with posts_bounds[of s remote vectors retry_count] show ?thesis
    by simp
qed

theorem insert_batch_attempts_bounded_witness:
  "(0::int) \<le> 2
   \<and> posts new_inserter < posts (snd (insert_batch always_down [vec_L01] 2 new_inserter))
   \<and> posts (snd (insert_batch always_down [vec_L01] 2 new_inserter)) = 2
   \<and> posts (snd (insert_batch always_down [vec_L01] 2 new_inserter))
       \<le> posts new_inserter + nat MAX_RETRIES + 1"
proof -
  have two: "posts (snd (insert_batch always_down [vec_L01] 2 new_inserter)) = 2"
    by (simp add: insert_batch.simps always_down_def new_inserter_def attempt_def
        MAX_RETRIES_def)
  from insert_batch_attempts_bounded[of 2 new_inserter always_down "[vec_L01]"] two
  show ?thesis by simp
qed


section \<open>Properties of the embedding generator\<close>

subsection \<open>The cache as a dict, and its file\<close>

lemma update_new_key:
  "map_of al k = None \<Longrightarrow> AList.update k v al = al @ [(k, v)]"
  by (induction al) (auto split: if_splits)

lemma map_of_append_None:
  "map_of (al @ new) k = None \<Longrightarrow> map_of al k = None"
  by (induction al) (auto split: if_splits)

lemma cached_in_append: "cached_in c l \<Longrightarrow> cached_in (c @ new) l"
  by (auto simp: cached_in_def split: option.splits)

lemma json_load_snoc:
  "json_load (d @ [(k, e)]) = AList.update (PStr k) e (json_load d)"
  by (simp add: json_load_def)

lemma json_load_distinct:
  "distinct (map fst d) \<Longrightarrow> json_load d = map (\<lambda>(k, e). (PStr k, e)) d"
proof (induction d rule: rev_induct)
  case Nil
  show ?case by (simp add: json_load_def)
next
  case (snoc p d)
  obtain k e where p: "p = (k, e)" by (cases p)
  from snoc.prems have d: "distinct (map fst d)" and k: "k \<notin> fst ` set d" by (auto simp: p)
  from k have "map_of (map (\<lambda>(k, e). (PStr k, e)) d) (PStr k) = None"
    by (force simp: map_of_eq_None_iff)
  with snoc.IH[OF d] show ?case
    by (simp add: p json_load_snoc update_new_key)
qed

lemma json_dump_load:
  "distinct (map fst d) \<Longrightarrow> json_dump (json_load d) = d"
  by (simp add: json_load_distinct json_dump_def case_prod_unfold o_def)

lemma save_cache_fields:
  "embeddings_cache (save_cache g) = embeddings_cache g"
  "requests (save_cache g) = requests g"
  "cache_file (save_cache g) = Document (json_dump (embeddings_cache g))"
  "trace (save_cache g) = trace g @ [Print (Msg_saved (length (embeddings_cache g)))]"
  by (simp_all add: save_cache_def save_steps_def)

subsection \<open>One iteration of the loop\<close>

lemma end_of_iteration_fields:
  "embeddings_cache (end_of_iteration len i g) = embeddings_cache g"
  "requests (end_of_iteration len i g) = requests g"
  "slept (trace (end_of_iteration len i g)) =
     slept (trace g) @ (if i mod BATCH_SIZE = 0 then [rate_limit_pause] else [])"
  "posted (trace (end_of_iteration len i g)) = posted (trace g)"
  by (simp_all add: end_of_iteration_def Let_def save_cache_fields slept_append posted_append)

lemma generate_embedding_fields:
  "embeddings_cache (snd (generate_embedding remote txt g)) = embeddings_cache g"
  "cache_file (snd (generate_embedding remote txt g)) = cache_file g"
  "requests (snd (generate_embedding remote txt g)) = requests g + 1"
  "slept (trace (snd (generate_embedding remote txt g))) = slept (trace g)"
  "posted (trace (snd (generate_embedding remote txt g))) = posted (trace g) @ [txt]"
  by (simp_all add: generate_embedding_def Let_def slept_append posted_append
      split: sum.splits option.splits)

lemma new_entry_total:
  assumes "create_lesson_text lesson = Inr ltext"
  shows "\<exists>entry. new_entry lesson embedding ltext = Inr entry"
  using assms
  by (auto simp: create_lesson_text_def new_entry_def split: sum.splits)

lemma embed_lesson_cases [case_names no_id hit bad_text stored failed]:
  fixes remote force_regen len i lesson t g
  defines "r \<equiv> embed_lesson remote force_regen len i lesson (t, g)"
  obtains
    "lesson ''id'' = None" and "r = (Some (KeyError ''id''), t, g)"
  | k where "lesson ''id'' = Some k" and "cache_hit force_regen k g"
      and "r = (None, t\<lparr>skipped := skipped t + 1\<rparr>,
                g\<lparr>trace := trace g @ [Print (Msg_cached i len k)]\<rparr>)"
  | k e where "lesson ''id'' = Some k" and "\<not> cache_hit force_regen k g"
      and "create_lesson_text lesson = Inl e" and "r = (Some e, t, g)"
  | k ltext entry g2 where "lesson ''id'' = Some k" and "\<not> cache_hit force_regen k g"
      and "create_lesson_text lesson = Inr ltext"
      and "g2 = snd (generate_embedding remote ltext
                       (g\<lparr>trace := trace g @ [Print (Msg_generating i len k)]\<rparr>))"
      and "truthy (fst (generate_embedding remote ltext
                       (g\<lparr>trace := trace g @ [Print (Msg_generating i len k)]\<rparr>)))"
      and "r = (None, t\<lparr>embedded := embedded t + 1\<rparr>,
                end_of_iteration len i
                  (g2\<lparr>embeddings_cache := AList.update k entry (embeddings_cache g2),
                      trace := trace g2 @ [Print (Msg_complete i len k)]\<rparr>))"
  | k ltext g2 where "lesson ''id'' = Some k" and "\<not> cache_hit force_regen k g"
      and "create_lesson_text lesson = Inr ltext"
      and "g2 = snd (generate_embedding remote ltext
                       (g\<lparr>trace := trace g @ [Print (Msg_generating i len k)]\<rparr>))"
      and "\<not> truthy (fst (generate_embedding remote ltext
                       (g\<lparr>trace := trace g @ [Print (Msg_generating i len k)]\<rparr>)))"
      and "r = (None, t\<lparr>failed := failed t + 1\<rparr>,
                end_of_iteration len i
                  (g2\<lparr>trace := trace g2 @ [Print (Msg_FAILED i len k)]\<rparr>))"
proof (cases "lesson ''id''")
  case None
  then have "r = (Some (KeyError ''id''), t, g)"
    by (simp add: r_def embed_lesson.simps item_def)
  with None that(1) show ?thesis by blast
next
  case (Some k)
  show ?thesis
  proof (cases "cache_hit force_regen k g")
    case True
    with Some have "r = (None, t\<lparr>skipped := skipped t + 1\<rparr>,
                g\<lparr>trace := trace g @ [Print (Msg_cached i len k)]\<rparr>)"
      by (simp add: r_def embed_lesson.simps item_def)
    with Some True that(2) show ?thesis by blast
  next
    case False
    show ?thesis
    proof (cases "create_lesson_text lesson")
      case (Inl e)
      with Some False have "r = (Some e, t, g)"
        by (simp add: r_def embed_lesson.simps item_def)
      with Some False Inl that(3) show ?thesis by blast
    next
      case (Inr ltext)
      let ?g1 = "g\<lparr>trace := trace g @ [Print (Msg_generating i len k)]\<rparr>"
      obtain emb g2 where ge: "generate_embedding remote ltext ?g1 = (emb, g2)"
        by (cases "generate_embedding remote ltext ?g1")
      show ?thesis
      proof (cases "truthy emb")
        case True
        from new_entry_total[OF Inr] obtain entry where
          ne: "new_entry lesson emb ltext = Inr entry" by blast
        from Some False Inr ge True ne
        have "r = (None, t\<lparr>embedded := embedded t + 1\<rparr>,
                end_of_iteration len i
                  (g2\<lparr>embeddings_cache := AList.update k entry (embeddings_cache g2),
                      trace := trace g2 @ [Print (Msg_complete i len k)]\<rparr>))"
          by (simp add: r_def embed_lesson.simps item_def)
        with Some False Inr ge True that(4)[of k ltext g2 entry] show ?thesis by simp
      next
        case F: False
        from Some False Inr ge F
        have "r = (None, t\<lparr>failed := failed t + 1\<rparr>,
                end_of_iteration len i
                  (g2\<lparr>trace := trace g2 @ [Print (Msg_FAILED i len k)]\<rparr>))"
          by (simp add: r_def embed_lesson.simps item_def)
        with Some False Inr ge F that(5)[of k ltext g2] show ?thesis by simp
      qed
    qed
  qed
qed

lemma embed_lesson_pause:
  "slept (trace (snd (snd (embed_lesson remote force_regen len i lesson (t, g))))) =
     slept (trace g) @
       (if fst (embed_lesson remote force_regen len i lesson (t, g)) = None
           \<and> \<not> skipped_as_cached force_regen lesson g \<and> i mod BATCH_SIZE = 0
        then [rate_limit_pause] else [])"
  by (cases remote force_regen len i lesson t g rule: embed_lesson_cases)
    (simp_all add: skipped_as_cached_def end_of_iteration_fields generate_embedding_fields
      slept_append)

lemma embed_lesson_no_regen:
  fixes remote len i lesson t g
  defines "g' \<equiv> snd (snd (embed_lesson remote False len i lesson (t, g)))"
  shows "\<exists>new. embeddings_cache g' = embeddings_cache g @ new"
    and "requests g' \<le> requests g + (if cached_in (embeddings_cache g) lesson then 0 else 1)"
    and "requests g \<le> requests g'"
proof -
  show "\<exists>new. embeddings_cache g' = embeddings_cache g @ new"
    unfolding g'_def
    by (cases remote False len i lesson t g rule: embed_lesson_cases)
      (simp_all add: end_of_iteration_fields generate_embedding_fields cache_hit_def
        update_new_key)
  show "requests g' \<le> requests g + (if cached_in (embeddings_cache g) lesson then 0 else 1)"
    unfolding g'_def
    by (cases remote False len i lesson t g rule: embed_lesson_cases)
      (simp_all add: end_of_iteration_fields generate_embedding_fields cache_hit_def
        cached_in_def)
  show "requests g \<le> requests g'"
    unfolding g'_def
    by (cases remote False len i lesson t g rule: embed_lesson_cases)
      (simp_all add: end_of_iteration_fields generate_embedding_fields)
qed

subsection \<open>The whole loop\<close>

lemma embed_loop_no_regen:
  "(\<exists>new. embeddings_cache (snd (snd (embed_loop remote False len i lessons (t, g))))
            = embeddings_cache g @ new)
   \<and> requests (snd (snd (embed_loop remote False len i lessons (t, g))))
       \<le> requests g + length (filter (\<lambda>l. \<not> cached_in (embeddings_cache g) l) lessons)"
proof (induction lessons arbitrary: i t g)
  case Nil
  show ?case by simp
next
  case (Cons lesson rest)
  obtain x t1 g1 where step: "embed_lesson remote False len i lesson (t, g) = (x, t1, g1)"
    by (cases "embed_lesson remote False len i lesson (t, g)")
  from embed_lesson_no_regen(1)[of remote len i lesson t g] step
  obtain new1 where c1: "embeddings_cache g1 = embeddings_cache g @ new1" by auto
  from embed_lesson_no_regen(2)[of remote len i lesson t g] step
  have r1: "requests g1 \<le> requests g + (if cached_in (embeddings_cache g) lesson then 0 else 1)"
    by simp
  show ?case
  proof (cases x)
    case (Some e)
    with step c1 r1 show ?thesis by (auto split: if_splits)
  next
    case None
    from Cons.IH[of "i + 1" t1 g1] obtain new2 where
      c2: "embeddings_cache (snd (snd (embed_loop remote False len (i + 1) rest (t1, g1))))
             = embeddings_cache g1 @ new2"
      and r2: "requests (snd (snd (embed_loop remote False len (i + 1) rest (t1, g1))))
             \<le> requests g1 + length (filter (\<lambda>l. \<not> cached_in (embeddings_cache g1) l) rest)"
      by blast
    have "length (filter (\<lambda>l. \<not> cached_in (embeddings_cache g1) l) rest)
            \<le> length (filter (\<lambda>l. \<not> cached_in (embeddings_cache g) l) rest)"
    proof -
      have "filter (\<lambda>l. \<not> cached_in (embeddings_cache g1) l) rest
            = filter (\<lambda>l. \<not> cached_in (embeddings_cache g1) l)
                (filter (\<lambda>l. \<not> cached_in (embeddings_cache g) l) rest)"
        by (auto simp: c1 cached_in_append intro!: filter_cong)
      then show ?thesis by (metis length_filter_le)
    qed
    with r2 r1 have "requests (snd (snd (embed_loop remote False len (i + 1) rest (t1, g1))))
        \<le> requests g + length (filter (\<lambda>l. \<not> cached_in (embeddings_cache g) l) (lesson # rest))"
      by (simp split: if_splits)
    with c2 c1 step None show ?thesis by simp
  qed
qed

lemma embed_loop_all_cached:
  assumes "\<forall>l \<in> set lessons. cached_in (embeddings_cache g) l"
  shows "\<exists>t' g'. embed_loop remote False len i lessons (t, g) = (None, t', g')
           \<and> embeddings_cache g' = embeddings_cache g
           \<and> cache_file g' = cache_file g
           \<and> requests g' = requests g
           \<and> posted (trace g') = posted (trace g)
           \<and> slept (trace g') = slept (trace g)
           \<and> skipped t' = skipped t + length lessons
           \<and> embedded t' = embedded t \<and> failed t' = failed t"
  using assms
proof (induction lessons arbitrary: i t g)
  case Nil
  show ?case by simp
next
  case (Cons lesson rest)
  from Cons.prems obtain k where k: "lesson ''id'' = Some k" "map_of (embeddings_cache g) k \<noteq> None"
    by (auto simp: cached_in_def split: option.splits)
  let ?t1 = "t\<lparr>skipped := skipped t + 1\<rparr>"
  let ?g1 = "g\<lparr>trace := trace g @ [Print (Msg_cached i len k)]\<rparr>"
  have step: "embed_lesson remote False len i lesson (t, g) = (None, ?t1, ?g1)"
    using k by (simp add: embed_lesson.simps item_def cache_hit_def)
  from Cons.prems have "\<forall>l \<in> set rest. cached_in (embeddings_cache ?g1) l" by simp
  from Cons.IH[OF this, of "i + 1" ?t1] step show ?case
    by (auto simp: posted_append slept_append)
qed

lemma batch_all_cached:
  assumes "\<forall>l \<in> set lessons. cached_in (embeddings_cache g) l"
  shows "fst (batch_embed_lessons remote lessons False g) = None
     \<and> requests (snd (batch_embed_lessons remote lessons False g)) = requests g
     \<and> posted (trace (snd (batch_embed_lessons remote lessons False g))) = posted (trace g)
     \<and> slept (trace (snd (batch_embed_lessons remote lessons False g))) = slept (trace g)
     \<and> embeddings_cache (snd (batch_embed_lessons remote lessons False g)) = embeddings_cache g
     \<and> cache_file (snd (batch_embed_lessons remote lessons False g))
         = Document (json_dump (embeddings_cache g))"
proof -
  let ?g0 = "g\<lparr>trace := trace g @ [Print (Msg_starting (length lessons)), Print Msg_rule]\<rparr>"
  let ?t0 = "\<lparr>embedded = 0, skipped = 0, failed = 0\<rparr>"
  from assms have "\<forall>l \<in> set lessons. cached_in (embeddings_cache ?g0) l" by simp
  from embed_loop_all_cached[OF this, of remote "length lessons" 1 ?t0]
  obtain t' g' where "embed_loop remote False (length lessons) 1 lessons (?t0, ?g0) = (None, t', g')"
    "embeddings_cache g' = embeddings_cache g" "requests g' = requests g"
    "posted (trace g') = posted (trace g)" "slept (trace g') = slept (trace g)"
    by (auto simp: posted_append slept_append)
  then show ?thesis
    by (simp add: batch_embed_lessons_def Let_def save_cache_fields posted_append slept_append)
qed

lemma batch_no_regen:
  "(\<exists>new. embeddings_cache (snd (batch_embed_lessons remote lessons False g))
            = embeddings_cache g @ new)
   \<and> requests (snd (batch_embed_lessons remote lessons False g))
       \<le> requests g + length (filter (\<lambda>l. \<not> cached_in (embeddings_cache g) l) lessons)"
proof -
  let ?g0 = "g\<lparr>trace := trace g @ [Print (Msg_starting (length lessons)), Print Msg_rule]\<rparr>"
  let ?t0 = "\<lparr>embedded = 0, skipped = 0, failed = 0\<rparr>"
  obtain x t1 g1 where loop:
    "embed_loop remote False (length lessons) 1 lessons (?t0, ?g0) = (x, t1, g1)"
    by (cases "embed_loop remote False (length lessons) 1 lessons (?t0, ?g0)")
  from embed_loop_no_regen[of remote "length lessons" 1 lessons ?t0 ?g0] loop
  have "(\<exists>new. embeddings_cache g1 = embeddings_cache g @ new)
      \<and> requests g1 \<le> requests g + length (filter (\<lambda>l. \<not> cached_in (embeddings_cache g) l) lessons)"
    by simp
  with loop show ?thesis
    by (cases x) (simp_all add: batch_embed_lessons_def Let_def save_cache_fields)
qed

subsection \<open>Pauses\<close>

lemma due_append: "due (xs @ ys) = due xs @ due ys"
  by (induction xs rule: due.induct) simp_all

lemma due_generate_embedding:
  "due (trace (snd (generate_embedding remote ltext g))) = due (trace g)"
  by (simp add: generate_embedding_def Let_def due_append split: sum.splits option.splits)

lemma due_end_of_iteration:
  "due (trace (end_of_iteration len i g)) = due (trace g)"
  by (simp add: end_of_iteration_def Let_def save_cache_fields due_append)

lemma embed_lesson_due:
  "\<exists>ps. slept (trace (snd (snd (embed_lesson remote force_regen len i lesson (t, g)))))
            = slept (trace g) @ ps
        \<and> due (trace (snd (snd (embed_lesson remote force_regen len i lesson (t, g)))))
            = due (trace g) @ ps"
  by (cases remote force_regen len i lesson t g rule: embed_lesson_cases)
    (simp_all add: end_of_iteration_fields generate_embedding_fields due_end_of_iteration
      due_generate_embedding slept_append due_append)

lemma embed_loop_due:
  "\<exists>ps. slept (trace (snd (snd (embed_loop remote force_regen len i lessons (t, g)))))
            = slept (trace g) @ ps
        \<and> due (trace (snd (snd (embed_loop remote force_regen len i lessons (t, g)))))
            = due (trace g) @ ps"
proof (induction lessons arbitrary: i t g)
  case Nil
  show ?case by simp
next
  case (Cons lesson rest)
  obtain x t1 g1 where step: "embed_lesson remote force_regen len i lesson (t, g) = (x, t1, g1)"
    by (cases "embed_lesson remote force_regen len i lesson (t, g)")
  from embed_lesson_due[of remote force_regen len i lesson t g] step
  obtain ps1 where p1: "slept (trace g1) = slept (trace g) @ ps1"
      "due (trace g1) = due (trace g) @ ps1" by auto
  show ?case
  proof (cases x)
    case (Some e)
    with step p1 show ?thesis by simp
  next
    case None
    from Cons.IH[of "i + 1" t1 g1] obtain ps2 where
      "slept (trace (snd (snd (embed_loop remote force_regen len (i + 1) rest (t1, g1)))))
            = slept (trace g1) @ ps2"
      "due (trace (snd (snd (embed_loop remote force_regen len (i + 1) rest (t1, g1)))))
            = due (trace g1) @ ps2" by blast
    with p1 step None show ?thesis by simp
  qed
qed

lemma batch_embed_lessons_due:
  "\<exists>ps. slept (trace (snd (batch_embed_lessons remote lessons force_regen g)))
            = slept (trace g) @ ps
        \<and> due (trace (snd (batch_embed_lessons remote lessons force_regen g)))
            = due (trace g) @ ps"
proof -
  let ?g0 = "g\<lparr>trace := trace g @ [Print (Msg_starting (length lessons)), Print Msg_rule]\<rparr>"
  let ?t0 = "\<lparr>embedded = 0, skipped = 0, failed = 0\<rparr>"
  obtain x t1 g1 where loop:
    "embed_loop remote force_regen (length lessons) 1 lessons (?t0, ?g0) = (x, t1, g1)"
    by (cases "embed_loop remote force_regen (length lessons) 1 lessons (?t0, ?g0)")
  from embed_loop_due[of remote force_regen "length lessons" 1 lessons ?t0 ?g0] loop
  obtain ps where "slept (trace g1) = slept (trace g) @ ps" "due (trace g1) = due (trace g) @ ps"
    by (auto simp: slept_append due_append)
  with loop show ?thesis
    by (cases x)
      (simp_all add: batch_embed_lessons_def Let_def save_cache_fields slept_append due_append)
qed

lemma rate_limit_pause_12: "rate_limit_pause = 12"
  by (simp add: rate_limit_pause_def REQUESTS_PER_MINUTE_def BATCH_SIZE_def)

subsection \<open>Claims\<close>

text \<open>
  Claim C3, as amended. When the cache file does not exist, loading gives the empty
  cache and does not fail. When the file exists and is not JSON, \<^verbatim>\<open>json.load\<close> raises and
  nothing catches the exception: creating the generator fails, and a run with its
  configuration and a lesson to embed ends with exit status 1 right after the banner:
  no empty cache takes the place of the corrupt one and no warning is printed.
\<close>

theorem load_cache_absent_or_corrupt:
  "(cache_file g = Missing \<longrightarrow> init_generator g = Inr (g\<lparr>embeddings_cache := []\<rparr>))
   \<and> (cache_file g = Garbage \<longrightarrow> init_generator g = Inl JSONDecodeError)
   \<and> (cache_file g = Garbage \<and> \<not> unset (ACCOUNT_ID cfg) \<and> \<not> unset (API_TOKEN cfg)
        \<and> lessons \<noteq> [] \<longrightarrow>
      main_guard cfg remote (Document (Some lessons)) g =
        (1, g\<lparr>trace := trace g @ [Print Msg_banner]\<rparr>))"
  by (simp add: init_generator_def load_cache_def main_guard_def main_def Let_def)

theorem load_cache_absent_or_corrupt_witness:
  "cache_file cold_start = Missing
   \<and> init_generator cold_start = Inr cold_start
   \<and> cache_file garbled_start = Garbage
   \<and> init_generator garbled_start = Inl JSONDecodeError
   \<and> \<not> unset (ACCOUNT_ID credentials) \<and> \<not> unset (API_TOKEN credentials)
   \<and> main_guard credentials embeds_ok (Document (Some [lesson_L02])) garbled_start =
        (1, \<lparr>embeddings_cache = [], cache_file = Garbage, requests = 0,
             trace = [Print Msg_banner]\<rparr>)"
  using load_cache_absent_or_corrupt[of cold_start credentials "[lesson_L02]" embeds_ok]
    load_cache_absent_or_corrupt[of garbled_start credentials "[lesson_L02]" embeds_ok]
  by (simp add: cold_start_def garbled_start_def credentials_def unset_def)

text \<open>
  Claim C3 as stated fails on a corrupt cache file: the run does not go on with an
  empty cache, it ends with status 1 and has sent no request.
\<close>

theorem corrupt_cache_ends_the_run_counterexample:
  "cache_file garbled_start = Garbage
   \<and> main_guard credentials embeds_ok (Document (Some [lesson_L01])) garbled_start =
        (1, garbled_start\<lparr>trace := [Print Msg_banner]\<rparr>)"
  by (simp add: garbled_start_def credentials_def unset_def main_guard_def main_def Let_def
      init_generator_def load_cache_def)

text \<open>
  Claim C4, as amended. \<^verbatim>\<open>_save_cache\<close> overwrites the cache file in place: a flush that
  runs to its end leaves the file holding the serialised cache, whatever it held before.
  No temporary file and no rename are involved: the file is truncated by \<^verbatim>\<open>open(..., 'w')\<close>
  before anything is written, so a kill after that step and before the end of the dump
  leaves a file that holds neither the previous snapshot nor the new one.
\<close>

theorem save_cache_overwrites_in_place:
  "cache_file (save_cache g) = Document (json_dump (embeddings_cache g))
   \<and> killed_in_save 0 g = cache_file g
   \<and> killed_in_save 1 g = cache_file g
   \<and> killed_in_save 2 g = Garbage
   \<and> killed_in_save 3 g = Document (json_dump (embeddings_cache g))"
  by (simp add: save_cache_def killed_in_save_def save_steps_def numeral_2_eq_2
      numeral_3_eq_3)

text \<open>
  Claim C4 as stated fails: a kill between the \<^verbatim>\<open>open\<close> and the end of the dump destroys
  the snapshot that was on disk, and the next load of that file raises.
\<close>

theorem kill_during_save_counterexample:
  "cache_file warm_start = Document [(''L01'', entry_L01)]
   \<and> json_dump (embeddings_cache warm_start) = [(''L01'', entry_L01)]
   \<and> killed_in_save 2 warm_start = Garbage
   \<and> load_cache (warm_start\<lparr>cache_file := killed_in_save 2 warm_start\<rparr>) = Inl JSONDecodeError"
  by (simp add: warm_start_def killed_in_save_def save_steps_def numeral_2_eq_2
      load_cache_def json_dump_def)

text \<open>
  Claim C5, as amended. With a required environment variable unset or empty, the script
  prints two lines and exits with status 1: no request, no sleep, cache and cache file
  untouched. With the configuration present and a curriculum whose lesson list is empty
  or absent, or with no curriculum file, \<^verbatim>\<open>main\<close> prints one line and returns: again no
  request, no sleep, cache and cache file untouched, but the exit status is 0.
\<close>

theorem main_guard_preconditions:
  "(unset (ACCOUNT_ID cfg) \<or> unset (API_TOKEN cfg) \<longrightarrow>
      main_guard cfg remote curriculum_file w =
        (1, w\<lparr>trace := trace w @ [Print Msg_missing_env, Print Msg_set_env]\<rparr>))
   \<and> (\<not> unset (ACCOUNT_ID cfg) \<and> \<not> unset (API_TOKEN cfg)
        \<and> (curriculum_file = Document (Some []) \<or> curriculum_file = Document None) \<longrightarrow>
      main_guard cfg remote curriculum_file w =
        (0, w\<lparr>trace := trace w @ [Print Msg_no_lessons]\<rparr>))
   \<and> (\<not> unset (ACCOUNT_ID cfg) \<and> \<not> unset (API_TOKEN cfg) \<and> curriculum_file = Missing \<longrightarrow>
      main_guard cfg remote curriculum_file w =
        (0, w\<lparr>trace := trace w @ [Print Msg_no_curriculum]\<rparr>))"
  by (auto simp: main_guard_def main_def Let_def)

theorem main_guard_preconditions_witness:
  "unset (API_TOKEN no_token)
   \<and> main_guard no_token embeds_ok (Document (Some [lesson_L01])) cold_start =
       (1, cold_start\<lparr>trace := [Print Msg_missing_env, Print Msg_set_env]\<rparr>)
   \<and> \<not> unset (ACCOUNT_ID credentials) \<and> \<not> unset (API_TOKEN credentials)
   \<and> main_guard credentials embeds_ok (Document None) cold_start =
       (0, cold_start\<lparr>trace := [Print Msg_no_lessons]\<rparr>)
   \<and> main_guard credentials embeds_ok Missing cold_start =
       (0, cold_start\<lparr>trace := [Print Msg_no_curriculum]\<rparr>)"
  using main_guard_preconditions[of no_token embeds_ok "Document (Some [lesson_L01])" cold_start]
    main_guard_preconditions[of credentials embeds_ok "Document None" cold_start]
    main_guard_preconditions[of credentials embeds_ok Missing cold_start]
  by (simp add: no_token_def credentials_def unset_def cold_start_def)

text \<open>
  Claim C5 as stated fails for an empty lesson list: the process exits with status 0,
  not with a non-zero status.
\<close>

theorem empty_lessons_exit_status_counterexample:
  "\<not> unset (ACCOUNT_ID credentials) \<and> \<not> unset (API_TOKEN credentials)
   \<and> main_guard credentials embeds_ok (Document (Some [])) cold_start =
       (0, cold_start\<lparr>trace := [Print Msg_no_lessons]\<rparr>)"
  by (simp add: credentials_def unset_def cold_start_def main_guard_def main_def)

text \<open>
  Claim C6, as amended. In \<^verbatim>\<open>batch_embed_lessons\<close> the iteration for the record at position
  \<open>i\<close> (counted from 1) ends with a pause of \<^verbatim>\<open>60 / REQUESTS_PER_MINUTE * BATCH_SIZE\<close> = 12
  seconds exactly when \<open>i\<close> is a multiple of \<^verbatim>\<open>BATCH_SIZE\<close> and the record was not skipped
  as cached, whatever the embedding service answers (success or failure of the call
  makes no difference); a record skipped as cached is followed by no pause. Over a whole
  run the pauses are one for each record sent to the service at a position that is a
  multiple of \<^verbatim>\<open>BATCH_SIZE\<close>.
\<close>

theorem rate_limit_pause_after_processed_record:
  "slept (trace (snd (snd (embed_lesson remote force_regen len i lesson (t, g))))) =
     slept (trace g) @
       (if fst (embed_lesson remote force_regen len i lesson (t, g)) = None
           \<and> \<not> skipped_as_cached force_regen lesson g \<and> i mod BATCH_SIZE = 0
        then [rate_limit_pause] else [])
   \<and> (\<exists>ps. slept (trace (snd (batch_embed_lessons remote lessons force_regen g)))
              = slept (trace g) @ ps
          \<and> due (trace (snd (batch_embed_lessons remote lessons force_regen g)))
              = due (trace g) @ ps)
   \<and> rate_limit_pause = 60 / real REQUESTS_PER_MINUTE * real BATCH_SIZE
   \<and> rate_limit_pause = 12"
  using embed_lesson_pause[of remote force_regen len i lesson t g]
    batch_embed_lessons_due[of remote lessons force_regen g] rate_limit_pause_12
  by (simp add: rate_limit_pause_def)

theorem rate_limit_pause_after_processed_record_witness:
  "fst (embed_lesson embeds_empty True 10 10 lesson_L01
          (\<lparr>embedded = 0, skipped = 0, failed = 0\<rparr>, warm_start)) = None
   \<and> \<not> skipped_as_cached True lesson_L01 warm_start
   \<and> 10 mod BATCH_SIZE = 0
   \<and> failed (fst (snd (embed_lesson embeds_empty True 10 10 lesson_L01
          (\<lparr>embedded = 0, skipped = 0, failed = 0\<rparr>, warm_start)))) = 1
   \<and> slept (trace (snd (snd (embed_lesson embeds_empty True 10 10 lesson_L01
          (\<lparr>embedded = 0, skipped = 0, failed = 0\<rparr>, warm_start))))) = [12]
   \<and> skipped_as_cached False lesson_L01 warm_start
   \<and> slept (trace (snd (snd (embed_lesson embeds_empty False 10 10 lesson_L01
          (\<lparr>embedded = 0, skipped = 0, failed = 0\<rparr>, warm_start))))) = []"
proof -
  have a: "fst (embed_lesson embeds_empty True 10 10 lesson_L01
          (\<lparr>embedded = 0, skipped = 0, failed = 0\<rparr>, warm_start)) = None"
    by code_simp
  have b: "\<not> skipped_as_cached True lesson_L01 warm_start"
    "skipped_as_cached False lesson_L01 warm_start"
    by (simp_all add: skipped_as_cached_def cache_hit_def lesson_L01_def warm_start_def)
  have c: "10 mod BATCH_SIZE = 0" by (simp add: BATCH_SIZE_def)
  have d: "failed (fst (snd (embed_lesson embeds_empty True 10 10 lesson_L01
          (\<lparr>embedded = 0, skipped = 0, failed = 0\<rparr>, warm_start)))) = 1"
    by code_simp
  have e: "slept (trace warm_start) = []" by (simp add: warm_start_def)
  from rate_limit_pause_after_processed_record
         [of embeds_empty True 10 10 lesson_L01 "\<lparr>embedded = 0, skipped = 0, failed = 0\<rparr>"
             warm_start "[]"]
       rate_limit_pause_after_processed_record
         [of embeds_empty False 10 10 lesson_L01 "\<lparr>embedded = 0, skipped = 0, failed = 0\<rparr>"
             warm_start "[]"]
       a b c d e
  show ?thesis by simp
qed

text \<open>
  Claim C6 as stated fails when the record that closes a sub-batch is a cache hit: ten
  records, all cached, are processed without any pause.
\<close>

theorem ten_cached_lessons_no_pause_counterexample:
  "length ten_cached_lessons = 10 \<and> 10 mod BATCH_SIZE = 0
   \<and> fst (batch_embed_lessons embeds_ok ten_cached_lessons False warm_start) = None
   \<and> slept (trace (snd (batch_embed_lessons embeds_ok ten_cached_lessons False warm_start))) = []"
  by code_simp

text \<open>
  Claim C7. For a lesson that has its \<^verbatim>\<open>title\<close>, \<^verbatim>\<open>tacticalConcept\<close> and
  \<^verbatim>\<open>historicalValidator\<close> and lacks the optional \<^verbatim>\<open>phase\<close>, \<^verbatim>\<open>create_lesson_text\<close> does
  not raise and returns the three fields and the sentinel \<^verbatim>\<open>UNKNOWN\<close> in the fixed order,
  separated by \<^verbatim>\<open> | \<close>: the phase is neither dropped nor left empty. The function is
  a function of the lesson alone.
\<close>

theorem create_lesson_text_unknown_phase:
  assumes "lesson ''title'' = Some title_v"
    and "lesson ''tacticalConcept'' = Some concept_v"
    and "lesson ''historicalValidator'' = Some validator_v"
    and "lesson ''phase'' = None"
  shows "create_lesson_text lesson =
           Inr (py_str title_v @ '' | '' @ py_str concept_v @ '' | '' @ py_str validator_v
                @ '' | Phase: UNKNOWN'')"
  using assms by (simp add: create_lesson_text_def item_def get_default_def)

theorem create_lesson_text_unknown_phase_witness:
  "lesson_L02 ''title'' = Some (PStr ''Siege'')
   \<and> lesson_L02 ''tacticalConcept'' = Some (PStr ''Attrition'')
   \<and> lesson_L02 ''historicalValidator'' = Some (PStr ''Alesia'')
   \<and> lesson_L02 ''phase'' = None
   \<and> create_lesson_text lesson_L02 = Inr ''Siege | Attrition | Alesia | Phase: UNKNOWN''"
proof -
  have a: "lesson_L02 ''title'' = Some (PStr ''Siege'')"
    and b: "lesson_L02 ''tacticalConcept'' = Some (PStr ''Attrition'')"
    and c: "lesson_L02 ''historicalValidator'' = Some (PStr ''Alesia'')"
    and d: "lesson_L02 ''phase'' = None"
    by (simp_all add: lesson_L02_def)
  from create_lesson_text_unknown_phase[OF a b c d] a b c d show ?thesis by simp
qed

text \<open>
  Claim C8. With \<^verbatim>\<open>force_regen = False\<close>, a run of \<^verbatim>\<open>batch_embed_lessons\<close> sends at most
  one request for each lesson that is not cached at the start, so none for a lesson
  that is; the cache at the end is the cache at the start followed by new entries, so
  every entry present at the start is still there, unchanged and in its place. When
  every lesson is cached at the start, the run ends normally, sends no request at all,
  leaves the cache as it was and writes that same cache to the file.
\<close>

theorem cached_records_make_no_calls:
  "requests (snd (batch_embed_lessons remote lessons False g))
       \<le> requests g + length (filter (\<lambda>l. \<not> cached_in (embeddings_cache g) l) lessons)
   \<and> (\<exists>new. embeddings_cache (snd (batch_embed_lessons remote lessons False g))
               = embeddings_cache g @ new)
   \<and> (\<forall>k e. map_of (embeddings_cache g) k = Some e \<longrightarrow>
         map_of (embeddings_cache (snd (batch_embed_lessons remote lessons False g))) k = Some e)
   \<and> ((\<forall>l \<in> set lessons. cached_in (embeddings_cache g) l) \<longrightarrow>
         fst (batch_embed_lessons remote lessons False g) = None
       \<and> requests (snd (batch_embed_lessons remote lessons False g)) = requests g
       \<and> posted (trace (snd (batch_embed_lessons remote lessons False g))) = posted (trace g)
       \<and> embeddings_cache (snd (batch_embed_lessons remote lessons False g)) = embeddings_cache g
       \<and> cache_file (snd (batch_embed_lessons remote lessons False g))
           = Document (json_dump (embeddings_cache g)))"
proof -
  from batch_no_regen[of remote lessons g] obtain new where
    new: "embeddings_cache (snd (batch_embed_lessons remote lessons False g))
            = embeddings_cache g @ new"
    and req: "requests (snd (batch_embed_lessons remote lessons False g))
       \<le> requests g + length (filter (\<lambda>l. \<not> cached_in (embeddings_cache g) l) lessons)"
    by blast
  have kept: "\<forall>k e. map_of (embeddings_cache g) k = Some e \<longrightarrow>
         map_of (embeddings_cache (snd (batch_embed_lessons remote lessons False g))) k = Some e"
    by (simp add: new)
  from new req kept batch_all_cached[of lessons g remote] show ?thesis by blast
qed

theorem cached_records_make_no_calls_witness:
  "cached_in (embeddings_cache warm_start) lesson_L01
   \<and> \<not> cached_in (embeddings_cache warm_start) lesson_L02
   \<and> map_of (embeddings_cache warm_start) (PStr ''L01'') = Some entry_L01
   \<and> requests (snd (batch_embed_lessons embeds_ok [lesson_L01, lesson_L02] False warm_start)) = 1
   \<and> map_of (embeddings_cache
        (snd (batch_embed_lessons embeds_ok [lesson_L01, lesson_L02] False warm_start)))
        (PStr ''L01'') = Some entry_L01
   \<and> fst (batch_embed_lessons embeds_ok [lesson_L01, lesson_L01] False warm_start) = None
   \<and> requests (snd (batch_embed_lessons embeds_ok [lesson_L01, lesson_L01] False warm_start)) = 0
   \<and> embeddings_cache (snd (batch_embed_lessons embeds_ok [lesson_L01, lesson_L01] False warm_start))
       = [(PStr ''L01'', entry_L01)]
   \<and> cache_file (snd (batch_embed_lessons embeds_ok [lesson_L01, lesson_L01] False warm_start))
       = Document [(''L01'', entry_L01)]"
proof -
  have c1: "cached_in (embeddings_cache warm_start) lesson_L01"
    by (simp add: cached_in_def warm_start_def lesson_L01_def)
  have c2: "\<not> cached_in (embeddings_cache warm_start) lesson_L02"
    by (simp add: cached_in_def warm_start_def lesson_L02_def)
  have m: "map_of (embeddings_cache warm_start) (PStr ''L01'') = Some entry_L01"
    by (simp add: warm_start_def)
  have one: "requests (snd (batch_embed_lessons embeds_ok [lesson_L01, lesson_L02] False warm_start)) = 1"
    by code_simp
  have d: "json_dump (embeddings_cache warm_start) = [(''L01'', entry_L01)]"
    "embeddings_cache warm_start = [(PStr ''L01'', entry_L01)]" "requests warm_start = 0"
    by (simp_all add: warm_start_def json_dump_def)
  from cached_records_make_no_calls[of embeds_ok "[lesson_L01, lesson_L02]" warm_start]
    cached_records_make_no_calls[of embeds_ok "[lesson_L01, lesson_L01]" warm_start]
    c1 c2 m one d
  show ?thesis by simp
qed

text \<open>
  Claim C9. When the embedding service answers a record that is not skipped with a
  well-formed success response whose first vector is the empty list, the iteration
  counts the record as failed, prints the failure line, and leaves the cache as it was:
  \<^verbatim>\<open>if embedding:\<close> is false for \<^verbatim>\<open>[]\<close>.
\<close>

theorem empty_vector_counts_as_failed:
  assumes "lesson ''id'' = Some k"
    and "\<not> cache_hit force_regen k g"
    and "create_lesson_text lesson = Inr ltext"
    and "remote (requests g) ltext = Http_response status (Some (JObj kvs))"
    and "\<not> (400 \<le> status \<and> status < 600)"
    and "map_of kvs ''success'' = Some (JBool True)"
    and "map_of kvs ''result'' = Some (JObj rkvs)"
    and "map_of rkvs ''data'' = Some (JArr (JArr [] # others))"
  shows "embed_lesson remote force_regen len i lesson (t, g) =
           (None, t\<lparr>failed := failed t + 1\<rparr>,
            end_of_iteration len i
              (g\<lparr>requests := requests g + 1,
                 trace := trace g @ [Print (Msg_generating i len k), Post ltext,
                                     Print (Msg_FAILED i len k)]\<rparr>))
         \<and> embeddings_cache (snd (snd (embed_lesson remote force_regen len i lesson (t, g))))
             = embeddings_cache g"
proof -
  have "generate_embedding remote ltext (g\<lparr>trace := trace g @ [Print (Msg_generating i len k)]\<rparr>)
        = (JArr [], g\<lparr>requests := requests g + 1,
                      trace := trace g @ [Print (Msg_generating i len k), Post ltext]\<rparr>)"
    using assms(4-8) by (simp add: generate_embedding_def)
  with assms(1-3) show ?thesis
    by (simp add: embed_lesson.simps item_def end_of_iteration_fields)
qed

theorem empty_vector_counts_as_failed_witness:
  "lesson_L01 ''id'' = Some (PStr ''L01'')
   \<and> \<not> cache_hit False (PStr ''L01'') cold_start
   \<and> create_lesson_text lesson_L01 = Inr ''Feint | Deception | Cannae | Phase: I''
   \<and> embed_lesson embeds_empty False 1 1 lesson_L01
        (\<lparr>embedded = 0, skipped = 0, failed = 0\<rparr>, cold_start) =
       (None, \<lparr>embedded = 0, skipped = 0, failed = 1\<rparr>,
        \<lparr>embeddings_cache = [], cache_file = Missing, requests = 1,
         trace = [Print (Msg_generating 1 1 (PStr ''L01'')),
                  Post ''Feint | Deception | Cannae | Phase: I'',
                  Print (Msg_FAILED 1 1 (PStr ''L01''))]\<rparr>)
   \<and> main_guard credentials embeds_empty (Document (Some [lesson_L01])) cold_start =
       (0, \<lparr>embeddings_cache = [], cache_file = Document [], requests = 1,
            trace = [Print Msg_banner, Print (Msg_starting 1), Print Msg_rule,
                     Print (Msg_generating 1 1 (PStr ''L01'')),
                     Post ''Feint | Deception | Cannae | Phase: I'',
                     Print (Msg_FAILED 1 1 (PStr ''L01'')),
                     Print (Msg_saved 0), Print Msg_rule, Print Msg_summary,
                     Print (Msg_generated_count 0), Print (Msg_cached_count 0),
                     Print (Msg_failed_count 1), Print Msg_rule,
                     Print Msg_pipeline_complete]\<rparr>)"
proof -
  have a: "lesson_L01 ''id'' = Some (PStr ''L01'')" by (simp add: lesson_L01_def)
  have b: "\<not> cache_hit False (PStr ''L01'') cold_start" by (simp add: cache_hit_def cold_start_def)
  have c: "create_lesson_text lesson_L01 = Inr ''Feint | Deception | Cannae | Phase: I''"
    by (simp add: create_lesson_text_def item_def get_default_def lesson_L01_def)
  have d: "embeds_empty (requests cold_start) ''Feint | Deception | Cannae | Phase: I''
     = Http_response 200 (Some (JObj [(''success'', JBool True),
       (''result'', JObj [(''data'', JArr [JArr []])])]))"
    by (simp add: embeds_empty_def)
  have run: "main_guard credentials embeds_empty (Document (Some [lesson_L01])) cold_start =
       (0, \<lparr>embeddings_cache = [], cache_file = Document [], requests = 1,
            trace = [Print Msg_banner, Print (Msg_starting 1), Print Msg_rule,
                     Print (Msg_generating 1 1 (PStr ''L01'')),
                     Post ''Feint | Deception | Cannae | Phase: I'',
                     Print (Msg_FAILED 1 1 (PStr ''L01'')),
                     Print (Msg_saved 0), Print Msg_rule, Print Msg_summary,
                     Print (Msg_generated_count 0), Print (Msg_cached_count 0),
                     Print (Msg_failed_count 1), Print Msg_rule,
                     Print Msg_pipeline_complete]\<rparr>)"
    by code_simp
  from empty_vector_counts_as_failed
         [where remote = embeds_empty and g = cold_start and others = "[]" and len = 1
            and i = 1 and t = "\<lparr>embedded = 0, skipped = 0, failed = 0\<rparr>",
          OF a b c d]
    a b c run
  show ?thesis
    by (simp add: end_of_iteration_def BATCH_SIZE_def cold_start_def)
qed

end
